theory Spec2Isabelle
  imports Main
begin

section \<open>The dashboard page of the client\<close>

text \<open>
  The client is a React component, \<open>DashboardPage\<close>. Its hooks and handlers read and
  write three things outside the component: the browser's \<open>localStorage\<close>, the
  router (\<open>router.push\<close>) and the network (\<open>fetch\<close>). The model threads them in one
  record: the component's state, the storage as a partial map, and the calls to
  \<open>router.push\<close>, \<open>fetch\<close> and \<open>console.error\<close> in the order they are made.
  What the environment answers (the user's answer to \<open>confirm\<close>, the outcome of a
  \<open>fetch\<close>) is a parameter of the handler that asks.
\<close>

subsection \<open>Data\<close>

datatype Priority = Low | Medium | High

text \<open>\<open>interface Task\<close>: the task object as the client reads it.\<close>

record Task =
  task_id :: int
  title :: string
  description :: "string option"
  status :: bool
  priority :: Priority
  created_at :: string
  updated_at :: "string option"

text \<open>
  The same declaration as data, field name and declared type, for statements about
  the names of the fields.
\<close>

datatype ts_type = TNumber | TString | TBoolean | TPriority | TNullable ts_type

definition Task_interface :: "(string \<times> ts_type) list" where
  "Task_interface =
     [(''id'', TNumber),
      (''title'', TString),
      (''description'', TNullable TString),
      (''status'', TBoolean),
      (''priority'', TPriority),
      (''created_at'', TString),
      (''updated_at'', TNullable TString)]"

text \<open>\<open>type FilterStatus = 'all' | 'pending' | 'completed'\<close> and
  \<open>type SortBy = 'created_at' | 'priority' | 'status'\<close>, with the strings they are.\<close>

datatype FilterStatus = FS_all | FS_pending | FS_completed

datatype SortBy = By_created_at | By_priority | By_status

fun SortBy_str :: "SortBy \<Rightarrow> string" where
  "SortBy_str By_created_at = ''created_at''"
| "SortBy_str By_priority = ''priority''"
| "SortBy_str By_status = ''status''"

text \<open>
  The status and sort selects offer every value of their types. The priority filter
  is a \<open>string\<close> in the component's state; its select offers these values.
\<close>

definition priorityOptions :: "string list" where
  "priorityOptions = [''all'', ''High'', ''Medium'', ''Low'']"

record user_info =
  info_name :: string
  info_email :: string

record FormData =
  form_title :: string
  form_description :: string
  form_priority :: Priority

text \<open>The component's state: one field for each \<open>useState\<close>.\<close>

record DashboardPage =
  user :: "user_info option"
  tasks :: "Task list"
  loading :: bool
  showAddModal :: bool
  showEditModal :: bool
  selectedTask :: "Task option"
  filterStatus :: FilterStatus
  filterPriority :: string
  sortBy :: SortBy
  formData :: FormData

text \<open>A call of \<open>fetch\<close>: the method (GET when the call names none), the URL and
  the headers.\<close>

record Request =
  http_method :: string
  url :: string
  headers :: "(string \<times> string) list"

record World =
  page :: DashboardPage
  localStorage :: "string \<rightharpoonup> string"
  pushed :: "string list"
  fetched :: "Request list"
  console_errors :: "string list"

text \<open>
  What a \<open>fetch\<close> comes to: the promise rejects, or it resolves to a response with
  its \<open>ok\<close> flag and the value of \<open>response.json()\<close> (\<open>None\<close> when that rejects).
\<close>

datatype 'a Outcome = Rejected | Response bool "'a option"

subsection \<open>JavaScript's conversions\<close>

text \<open>\<open>!v\<close> on the result of \<open>getItem\<close>: \<open>null\<close> and the empty string are falsy.\<close>

definition falsy :: "string option \<Rightarrow> bool" where
  "falsy v = (case v of None \<Rightarrow> True | Some s \<Rightarrow> s = [])"

text \<open>\<open>v || d\<close>.\<close>

definition or_else :: "string option \<Rightarrow> string \<Rightarrow> string" where
  "or_else v d = (case v of None \<Rightarrow> d | Some s \<Rightarrow> if s = [] then d else s)"

text \<open>A value inside a template literal: \<open>null\<close>, a boolean, and a number. The ids
  the client renders are integers, which print in decimal (below \<open>10\<^sup>2\<^sup>1\<close>, where
  JavaScript changes to the exponent form).\<close>

definition nullable_str :: "string option \<Rightarrow> string" where
  "nullable_str v = (case v of None \<Rightarrow> ''null'' | Some s \<Rightarrow> s)"

definition bool_str :: "bool \<Rightarrow> string" where
  "bool_str b = (if b then ''true'' else ''false'')"

definition digit_char :: "nat \<Rightarrow> char" where
  "digit_char d = ''0123456789'' ! d"

function show_nat :: "nat \<Rightarrow> string" where
  "show_nat n = (if n < 10 then [digit_char n] else show_nat (n div 10) @ [digit_char (n mod 10)])"
  by pat_completeness auto
termination
  by (relation "measure id") auto

declare show_nat.simps [simp del]

definition show_number :: "int \<Rightarrow> string" where
  "show_number i = (if i < 0 then CHR ''-'' # show_nat (nat (- i)) else show_nat (nat i))"

subsection \<open>Hooks and handlers\<close>

text \<open>
  \<open>fetchTasks\<close>. The token is read and the URL is built before the call of
  \<open>fetch\<close>, so the request is issued whatever the outcome is. A rejected
  \<open>fetch\<close> or \<open>response.json()\<close> is caught and logged; \<open>finally\<close> clears
  \<open>loading\<close> on every path. \<open>tasks_url\<close> is the URL as the three statements on
  \<open>url\<close> build it.
\<close>

definition tasks_url :: "DashboardPage \<Rightarrow> string" where
  "tasks_url p =
     (let url = ''http://localhost:8000/api/tasks?sort_by='' @ SortBy_str (sortBy p);
          url = (if filterStatus p \<noteq> FS_all
                 then url @ ''&status='' @ bool_str (filterStatus p = FS_completed)
                 else url);
          url = (if filterPriority p \<noteq> ''all''
                 then url @ ''&priority='' @ filterPriority p
                 else url)
      in url)"

definition fetchTasks :: "Task list Outcome \<Rightarrow> World \<Rightarrow> World" where
  "fetchTasks res w =
     (let token = localStorage w ''token'';
          w1 = w\<lparr>fetched := fetched w @
                 [\<lparr>http_method = ''GET'', url = tasks_url (page w),
                   headers = [(''Authorization'', ''Bearer '' @ nullable_str token)]\<rparr>]\<rparr>;
          w2 = (case res of
                  Rejected \<Rightarrow>
                    w1\<lparr>console_errors := console_errors w1 @ [''Error fetching tasks:'']\<rparr>
                | Response ok body \<Rightarrow>
                    if ok then
                      (case body of
                         None \<Rightarrow>
                           w1\<lparr>console_errors :=
                                console_errors w1 @ [''Error fetching tasks:'']\<rparr>
                       | Some data \<Rightarrow> w1\<lparr>page := (page w1)\<lparr>tasks := data\<rparr>\<rparr>)
                    else w1)
      in w2\<lparr>page := (page w2)\<lparr>loading := False\<rparr>\<rparr>)"

text \<open>The effect that runs when the dashboard loads (and when a filter or the sort
  key changes).\<close>

definition useEffect :: "Task list Outcome \<Rightarrow> World \<Rightarrow> World" where
  "useEffect res w =
     (let token = localStorage w ''token'';
          userName = localStorage w ''userName'';
          userEmail = localStorage w ''userEmail''
      in if falsy token then w\<lparr>pushed := pushed w @ [''/auth/login'']\<rparr>
         else fetchTasks res
                (w\<lparr>page := (page w)\<lparr>user :=
                     Some \<lparr>info_name = or_else userName ''User'',
                           info_email = or_else userEmail []\<rparr>\<rparr>\<rparr>))"

text \<open>
  \<open>handleDeleteTask\<close>. \<open>confirmed\<close> is what \<open>confirm\<close> returns, \<open>res\<close> the
  outcome of the DELETE and \<open>res'\<close> the outcome of the \<open>fetchTasks\<close> that follows
  a response that is \<open>ok\<close>.
\<close>

definition handleDeleteTask ::
    "bool \<Rightarrow> unit Outcome \<Rightarrow> Task list Outcome \<Rightarrow> int \<Rightarrow> World \<Rightarrow> World" where
  "handleDeleteTask confirmed res res' taskId w =
     (if \<not> confirmed then w
      else
        let token = localStorage w ''token'';
            w1 = w\<lparr>fetched := fetched w @
                   [\<lparr>http_method = ''DELETE'',
                     url = ''http://localhost:8000/api/tasks/'' @ show_number taskId,
                     headers = [(''Authorization'', ''Bearer '' @ nullable_str token)]\<rparr>]\<rparr>
        in case res of
             Rejected \<Rightarrow>
               w1\<lparr>console_errors := console_errors w1 @ [''Error deleting task:'']\<rparr>
           | Response ok body \<Rightarrow> if ok then fetchTasks res' w1 else w1)"

text \<open>\<open>handleLogout\<close>: three calls of \<open>removeItem\<close>, then \<open>router.push('/')\<close>.\<close>

definition removeItem :: "string \<Rightarrow> World \<Rightarrow> World" where
  "removeItem k w = w\<lparr>localStorage := (localStorage w)(k := None)\<rparr>"

definition handleLogout :: "World \<Rightarrow> World" where
  "handleLogout w =
     (let w1 = removeItem ''token'' w;
          w2 = removeItem ''userName'' w1;
          w3 = removeItem ''userEmail'' w2
      in w3\<lparr>pushed := pushed w3 @ [''/'']\<rparr>)"

subsection \<open>Reading a URL\<close>

text \<open>
  What a server reads in a URL, to state what a request's query string contains: the
  part before the first \<open>?\<close>, and the parameters, separated by \<open>&\<close>, each a key and
  the value after its first \<open>=\<close>.
\<close>

fun split_first :: "char \<Rightarrow> string \<Rightarrow> string \<times> string option" where
  "split_first c [] = ([], None)"
| "split_first c (x # xs) =
     (if x = c then ([], Some xs)
      else (case split_first c xs of (a, r) \<Rightarrow> (x # a, r)))"

fun split_on :: "char \<Rightarrow> string \<Rightarrow> string list" where
  "split_on c [] = [[]]"
| "split_on c (x # xs) =
     (if x = c then [] # split_on c xs
      else (case split_on c xs of [] \<Rightarrow> [[x]] | p # ps \<Rightarrow> (x # p) # ps))"

definition path_of :: "string \<Rightarrow> string" where
  "path_of u = fst (split_first CHR ''?'' u)"

definition key_value :: "string \<Rightarrow> string \<times> string" where
  "key_value p = (case split_first CHR ''='' p of (k, None) \<Rightarrow> (k, []) | (k, Some v) \<Rightarrow> (k, v))"

definition params_of :: "string \<Rightarrow> (string \<times> string) list" where
  "params_of u =
     (case snd (split_first CHR ''?'' u) of
        None \<Rightarrow> []
      | Some q \<Rightarrow> map key_value (split_on CHR ''&'' q))"

section \<open>The Task API of the server\<close>

text \<open>
  The server (the FastAPI application with its ORM models and schemas) is not among
  the sources of the client. Its Task API is modelled here from the specification,
  sections 3, 4.4, 6 and 7, one definition for each operation.
\<close>

text \<open>Modelled from the spec: the error taxonomy of section 7; the server's exception
  classes are missing.\<close>

datatype api_error =
  ValidationError | DuplicateEmail | InvalidCredentials | Unauthorized | InvalidToken | NotFound

text \<open>Modelled from the spec: the user identity a verified token resolves to, the key
  of the \<open>users\<close> table; the user model is missing.\<close>

type_synonym user_identity = nat

text \<open>Modelled from the spec: a row of the persisted table
  \<open>tasks(id, owner_id, title, description, completed, priority, created_at, updated_at)\<close>;
  the ORM model is missing. A timestamp is the text the server renders.\<close>

record task_row =
  row_id :: nat
  owner_id :: user_identity
  row_title :: string
  row_description :: "string option"
  completed :: bool
  row_priority :: Priority
  row_created_at :: string
  row_updated_at :: string

text \<open>Modelled from the spec: the Task Store, the rows by their primary key, and the
  next key the store assigns; the database is missing.\<close>

record task_store =
  rows :: "nat \<rightharpoonup> task_row"
  next_id :: nat

text \<open>Modelled from the spec: the fields a call of \<open>update\<close> supplies (``updates only
  supplied fields''); the request schema is missing.\<close>

record task_fields =
  set_title :: "string option"
  set_description :: "string option"
  set_completed :: "bool option"
  set_priority :: "Priority option"

text \<open>Modelled from the spec: \<open>create(userIdentity, title, description?, priority)\<close>,
  ``fails with ValidationError if title empty. Sets owner to userIdentity,
  completion=false, timestamps to now''; the handler of \<open>POST /tasks\<close> is missing.\<close>

definition create ::
    "user_identity \<Rightarrow> string \<Rightarrow> string option \<Rightarrow> Priority \<Rightarrow> string \<Rightarrow> task_store
      \<Rightarrow> (api_error + task_row) \<times> task_store" where
  "create uid ttl desc prio now s =
     (if ttl = [] then (Inl ValidationError, s)
      else
        let r = \<lparr>row_id = next_id s, owner_id = uid, row_title = ttl,
                 row_description = desc, completed = False, row_priority = prio,
                 row_created_at = now, row_updated_at = now\<rparr>
        in (Inr r, s\<lparr>rows := (rows s)(next_id s \<mapsto> r), next_id := Suc (next_id s)\<rparr>))"

text \<open>Modelled from the spec: the lookup the three mutating operations share, ``no
  task with that id owned by userIdentity'' (the ownership check folded into the
  existence check); the query of the handlers is missing.\<close>

definition owned :: "user_identity \<Rightarrow> nat \<Rightarrow> task_store \<Rightarrow> task_row option" where
  "owned uid tid s =
     (case rows s tid of
        None \<Rightarrow> None
      | Some r \<Rightarrow> if owner_id r = uid then Some r else None)"

text \<open>Modelled from the spec: ``updates only supplied fields''; the assignment of the
  supplied fields in the handler of \<open>PUT /tasks/{id}\<close> is missing.\<close>

definition apply_fields :: "task_fields \<Rightarrow> task_row \<Rightarrow> task_row" where
  "apply_fields f r =
     r\<lparr>row_title := (case set_title f of None \<Rightarrow> row_title r | Some t \<Rightarrow> t),
       row_description :=
         (case set_description f of None \<Rightarrow> row_description r | Some d \<Rightarrow> Some d),
       completed := (case set_completed f of None \<Rightarrow> completed r | Some c \<Rightarrow> c),
       row_priority := (case set_priority f of None \<Rightarrow> row_priority r | Some p \<Rightarrow> p)\<rparr>"

text \<open>Modelled from the spec: \<open>update(userIdentity, taskId, fields)\<close>, ``fails with
  NotFound if no task with that id owned by userIdentity. Updates only supplied fields;
  refreshes update timestamp''; the handler of \<open>PUT /tasks/{id}\<close> is missing.\<close>

definition update ::
    "user_identity \<Rightarrow> nat \<Rightarrow> task_fields \<Rightarrow> string \<Rightarrow> task_store
      \<Rightarrow> (api_error + task_row) \<times> task_store" where
  "update uid tid f now s =
     (case owned uid tid s of
        None \<Rightarrow> (Inl NotFound, s)
      | Some r \<Rightarrow>
          let r' = (apply_fields f r)\<lparr>row_updated_at := now\<rparr>
          in (Inr r', s\<lparr>rows := (rows s)(tid \<mapsto> r')\<rparr>))"

text \<open>Modelled from the spec: \<open>toggle(userIdentity, taskId)\<close>, ``flips completion
  flag; same ownership/NotFound semantics'', the update timestamp ``set on every
  mutation''; the handler of \<open>PATCH /tasks/{id}/toggle\<close> is missing.\<close>

definition toggle ::
    "user_identity \<Rightarrow> nat \<Rightarrow> string \<Rightarrow> task_store \<Rightarrow> (api_error + task_row) \<times> task_store" where
  "toggle uid tid now s =
     (case owned uid tid s of
        None \<Rightarrow> (Inl NotFound, s)
      | Some r \<Rightarrow>
          let r' = r\<lparr>completed := \<not> completed r, row_updated_at := now\<rparr>
          in (Inr r', s\<lparr>rows := (rows s)(tid \<mapsto> r')\<rparr>))"

text \<open>Modelled from the spec: \<open>delete(userIdentity, taskId)\<close>, ``same
  ownership/NotFound semantics; permanent removal''; the handler of
  \<open>DELETE /tasks/{id}\<close> is missing.\<close>

definition delete ::
    "user_identity \<Rightarrow> nat \<Rightarrow> task_store \<Rightarrow> (api_error + unit) \<times> task_store" where
  "delete uid tid s =
     (case owned uid tid s of
        None \<Rightarrow> (Inl NotFound, s)
      | Some r \<Rightarrow> (Inr (), s\<lparr>rows := (rows s)(tid := None)\<rparr>))"

text \<open>Modelled from the spec: the task object a response carries for a row, with the
  fields of the client's \<open>interface Task\<close>; the response schema is missing. The
  interface has no field for the owner, and the completion flag is its \<open>status\<close>.\<close>

definition expose :: "task_row \<Rightarrow> Task" where
  "expose r =
     \<lparr>task_id = int (row_id r), title = row_title r, description = row_description r,
      status = completed r, priority = row_priority r, created_at = row_created_at r,
      updated_at = Some (row_updated_at r)\<rparr>"

section \<open>Concrete inputs\<close>

text \<open>A dashboard of a logged-in user, filtered to the completed tasks of high
  priority and sorted by priority; the storage holds a key of another feature too.\<close>

definition example_world :: World where
  "example_world =
     \<lparr>page =
        \<lparr>user = None, tasks = [], loading = True, showAddModal = False,
         showEditModal = False, selectedTask = None, filterStatus = FS_completed,
         filterPriority = ''High'', sortBy = By_priority,
         formData = \<lparr>form_title = [], form_description = [], form_priority = Medium\<rparr>\<rparr>,
      localStorage =
        [''token'' \<mapsto> ''abc'', ''userName'' \<mapsto> ''John'', ''theme'' \<mapsto> ''dark''],
      pushed = [], fetched = [], console_errors = []\<rparr>"

text \<open>The same dashboard in a browser whose storage is empty.\<close>

definition logged_out_world :: World where
  "logged_out_world = example_world\<lparr>localStorage := Map.empty\<rparr>"

text \<open>The store after user 1 has created one task in an empty store.\<close>

definition empty_store :: task_store where
  "empty_store = \<lparr>rows = Map.empty, next_id = 0\<rparr>"

definition example_row :: task_row where
  "example_row =
     \<lparr>row_id = 0, owner_id = 1, row_title = ''Buy milk'', row_description = None,
      completed = False, row_priority = Low, row_created_at = ''2024-01-01T00:00:00'',
      row_updated_at = ''2024-01-01T00:00:00''\<rparr>"

definition example_store :: task_store where
  "example_store =
     snd (create 1 ''Buy milk'' None Low ''2024-01-01T00:00:00'' empty_store)"

definition example_fields :: task_fields where
  "example_fields =
     \<lparr>set_title = Some ''Buy bread'', set_description = None, set_completed = Some True,
      set_priority = None\<rparr>"

section \<open>Properties of the client\<close>

subsection \<open>What \<open>fetchTasks\<close> sends\<close>

lemma fetched_fetchTasks:
  "fetched (fetchTasks res w) =
     fetched w @
       [\<lparr>http_method = ''GET'', url = tasks_url (page w),
         headers =
           [(''Authorization'', ''Bearer '' @ nullable_str (localStorage w ''token''))]\<rparr>]"
  by (simp add: fetchTasks_def Let_def split: Outcome.split option.split)

lemma pushed_fetchTasks: "pushed (fetchTasks res w) = pushed w"
  by (simp add: fetchTasks_def Let_def split: Outcome.split option.split)

lemma localStorage_fetchTasks: "localStorage (fetchTasks res w) = localStorage w"
  by (simp add: fetchTasks_def Let_def split: Outcome.split option.split)

lemma loading_fetchTasks: "loading (page (fetchTasks res w)) = False"
  by (simp add: fetchTasks_def Let_def split: Outcome.split option.split)

text \<open>
  \<open>fetchTasks\<close> itself does not look at the token: called with no token in the
  storage, it sends the header \<open>Bearer null\<close>.
\<close>

lemma fetchTasks_no_token:
  "localStorage w ''token'' = None \<Longrightarrow>
     map headers (fetched (fetchTasks res w)) =
       map headers (fetched w) @ [[(''Authorization'', ''Bearer null'')]]"
  by (simp add: fetched_fetchTasks nullable_str_def)

text \<open>A piece with no separator in it is one piece.\<close>

lemma split_on_single: "c \<notin> set a \<Longrightarrow> split_on c a = [a]"
  by (induction a) auto

lemma path_of_tasks_url: "path_of (tasks_url p) = ''http://localhost:8000/api/tasks''"
  by (cases "sortBy p") (simp_all add: path_of_def tasks_url_def Let_def)

text \<open>
  The parameters of the URL for any priority filter that holds no \<open>&\<close>: the sort
  key, then the status unless the filter is \<open>all\<close>, then the priority unless the
  filter is \<open>all\<close>.
\<close>

lemma params_of_tasks_url:
  assumes "CHR ''&'' \<notin> set (filterPriority p)"
  shows "params_of (tasks_url p) =
     [(''sort_by'', SortBy_str (sortBy p))] @
     (case filterStatus p of
        FS_all \<Rightarrow> []
      | FS_pending \<Rightarrow> [(''status'', ''false'')]
      | FS_completed \<Rightarrow> [(''status'', ''true'')]) @
     (if filterPriority p = ''all'' then [] else [(''priority'', filterPriority p)])"
  using assms
  by (cases "sortBy p"; cases "filterStatus p")
     (simp_all add: params_of_def tasks_url_def Let_def bool_str_def key_value_def
        split_on_single)

lemma priorityOptions_no_amp: "fp \<in> set priorityOptions \<Longrightarrow> CHR ''&'' \<notin> set fp"
  by (auto simp: priorityOptions_def)

text \<open>
  Claim C7. For every status filter, sort key and priority filter of the filter bar,
  \<open>fetchTasks\<close> issues exactly one request, a GET of \<open>/api/tasks\<close>, whatever the
  outcome of the call. Its query string holds \<open>sort_by\<close> with the selected key;
  \<open>status=true\<close> when the status filter is \<open>completed\<close>, \<open>status=false\<close> when it is
  \<open>pending\<close> and no \<open>status\<close> when it is \<open>all\<close>; and \<open>priority\<close> with the
  selected priority exactly when the priority filter is not \<open>all\<close>. It holds nothing
  else.
\<close>

theorem fetchTasks_query:
  assumes "filterPriority (page w) \<in> set priorityOptions"
  shows "\<exists>r. fetched (fetchTasks res w) = fetched w @ [r]
     \<and> http_method r = ''GET''
     \<and> path_of (url r) = ''http://localhost:8000/api/tasks''
     \<and> params_of (url r) =
         [(''sort_by'', SortBy_str (sortBy (page w)))] @
         (case filterStatus (page w) of
            FS_all \<Rightarrow> []
          | FS_pending \<Rightarrow> [(''status'', ''false'')]
          | FS_completed \<Rightarrow> [(''status'', ''true'')]) @
         (if filterPriority (page w) = ''all'' then []
          else [(''priority'', filterPriority (page w))])"
proof -
  have amp: "CHR ''&'' \<notin> set (filterPriority (page w))"
    using assms by (rule priorityOptions_no_amp)
  show ?thesis
    using path_of_tasks_url [of "page w"] params_of_tasks_url [OF amp]
    by (simp add: fetched_fetchTasks)
qed

theorem fetchTasks_query_witness:
  "filterPriority (page example_world) \<in> set priorityOptions
   \<and> (\<exists>r. fetched (fetchTasks (Response False None) example_world) = [r]
        \<and> http_method r = ''GET''
        \<and> path_of (url r) = ''http://localhost:8000/api/tasks''
        \<and> params_of (url r) =
            [(''sort_by'', ''priority''), (''status'', ''true''), (''priority'', ''High'')])"
proof -
  have sel: "filterPriority (page example_world) \<in> set priorityOptions"
    by (simp add: example_world_def priorityOptions_def)
  from fetchTasks_query [OF sel, of "Response False None"] sel show ?thesis
    by (simp add: example_world_def)
qed

subsection \<open>Loading the dashboard\<close>

text \<open>
  Claim C8. When the dashboard loads and the storage holds no token (or an empty one),
  the effect navigates to \<open>/auth/login\<close> and issues no request. Whenever the effect
  issues a request, the storage holds a non-empty token, the request is the one GET of
  \<open>/api/tasks\<close>, its only header is \<open>Authorization: Bearer\<close> followed by that
  token, and the effect does not navigate.
\<close>

theorem useEffect_token:
  "(localStorage w ''token'' = None \<or> localStorage w ''token'' = Some [] \<longrightarrow>
      pushed (useEffect res w) = pushed w @ [''/auth/login'']
      \<and> fetched (useEffect res w) = fetched w)
   \<and> (fetched (useEffect res w) \<noteq> fetched w \<longrightarrow>
       (\<exists>tok u. localStorage w ''token'' = Some tok \<and> tok \<noteq> []
          \<and> pushed (useEffect res w) = pushed w
          \<and> path_of u = ''http://localhost:8000/api/tasks''
          \<and> fetched (useEffect res w) = fetched w @
               [\<lparr>http_method = ''GET'', url = u,
                 headers = [(''Authorization'', ''Bearer '' @ tok)]\<rparr>]))"
proof (cases "localStorage w ''token''")
  case None
  then show ?thesis by (simp add: useEffect_def falsy_def)
next
  case (Some tok)
  show ?thesis
  proof (cases "tok = []")
    case True
    with Some show ?thesis by (simp add: useEffect_def falsy_def)
  next
    case False
    with Some have "fetched (useEffect res w) = fetched w @
        [\<lparr>http_method = ''GET'', url = tasks_url (page w),
          headers = [(''Authorization'', ''Bearer '' @ tok)]\<rparr>]"
      and "pushed (useEffect res w) = pushed w"
      by (simp_all add: useEffect_def falsy_def Let_def fetched_fetchTasks pushed_fetchTasks
            tasks_url_def nullable_str_def)
    with Some False path_of_tasks_url [of "page w"] show ?thesis by auto
  qed
qed

theorem useEffect_token_witness:
  "localStorage logged_out_world ''token'' = None
   \<and> pushed (useEffect Rejected logged_out_world) = [''/auth/login'']
   \<and> fetched (useEffect Rejected logged_out_world) = []
   \<and> fetched (useEffect Rejected example_world) \<noteq> fetched example_world
   \<and> localStorage example_world ''token'' = Some ''abc''
   \<and> pushed (useEffect Rejected example_world) = []
   \<and> map headers (fetched (useEffect Rejected example_world)) =
       [[(''Authorization'', ''Bearer abc'')]]"
proof -
  have none: "localStorage logged_out_world ''token'' = None"
    by (simp add: logged_out_world_def)
  have start: "pushed logged_out_world = [] \<and> fetched logged_out_world = []
      \<and> pushed example_world = [] \<and> fetched example_world = []"
    by (simp add: logged_out_world_def example_world_def)
  have tok: "localStorage example_world ''token'' = Some ''abc''"
    by (simp add: example_world_def)
  have sent: "fetched (useEffect Rejected example_world) \<noteq> fetched example_world"
    by (simp add: useEffect_def falsy_def fetched_fetchTasks tok)
  from useEffect_token [of logged_out_world Rejected] none start
  have 1: "pushed (useEffect Rejected logged_out_world) = [''/auth/login'']
      \<and> fetched (useEffect Rejected logged_out_world) = []"
    by simp
  from useEffect_token [of example_world Rejected] sent tok start
  have 2: "pushed (useEffect Rejected example_world) = []
      \<and> map headers (fetched (useEffect Rejected example_world)) =
          [[(''Authorization'', ''Bearer abc'')]]"
    by auto
  from none sent tok 1 2 show ?thesis by blast
qed

subsection \<open>Logging out\<close>

text \<open>
  Claim C9. \<open>handleLogout\<close> removes the keys \<open>token\<close>, \<open>userName\<close> and
  \<open>userEmail\<close> from the storage and no other: every other key keeps its value. It
  navigates to \<open>/\<close>, the home page, issues no request, and leaves the component's
  state and the console as they were.
\<close>

theorem handleLogout_removes:
  "(\<forall>k. localStorage (handleLogout w) k =
         (if k \<in> {''token'', ''userName'', ''userEmail''} then None else localStorage w k))
   \<and> dom (localStorage (handleLogout w)) =
       dom (localStorage w) - {''token'', ''userName'', ''userEmail''}
   \<and> pushed (handleLogout w) = pushed w @ [''/'']
   \<and> fetched (handleLogout w) = fetched w
   \<and> page (handleLogout w) = page w
   \<and> console_errors (handleLogout w) = console_errors w"
  by (auto simp: handleLogout_def removeItem_def Let_def)

theorem handleLogout_removes_witness:
  "localStorage example_world ''token'' = Some ''abc''
   \<and> localStorage (handleLogout example_world) ''token'' = None
   \<and> localStorage (handleLogout example_world) ''userName'' = None
   \<and> localStorage (handleLogout example_world) ''theme'' = Some ''dark''
   \<and> dom (localStorage (handleLogout example_world)) = {''theme''}
   \<and> pushed (handleLogout example_world) = [''/'']
   \<and> fetched (handleLogout example_world) = []"
proof -
  have start: "localStorage example_world ''token'' = Some ''abc''
      \<and> localStorage example_world ''theme'' = Some ''dark''
      \<and> dom (localStorage example_world) = {''token'', ''userName'', ''theme''}
      \<and> pushed example_world = [] \<and> fetched example_world = []"
    by (auto simp: example_world_def)
  from handleLogout_removes [of example_world] start show ?thesis
    by auto
qed

subsection \<open>Deleting a task\<close>

text \<open>
  Claim C10. For every task id, when the user declines the confirmation
  \<open>handleDeleteTask\<close> changes nothing: no request is sent, and the task list, like the
  rest of the state, is as it was. A request is issued only when the user has
  confirmed, and then the first request issued is the DELETE of \<open>/api/tasks/<id>\<close>
  with the stored token; what follows it, if anything, is the GET of \<open>fetchTasks\<close>.
\<close>

theorem handleDeleteTask_confirm:
  "(\<not> confirmed \<longrightarrow> handleDeleteTask confirmed res res' taskId w = w)
   \<and> (fetched (handleDeleteTask confirmed res res' taskId w) \<noteq> fetched w \<longrightarrow> confirmed)
   \<and> (confirmed \<longrightarrow>
        (\<exists>rest. fetched (handleDeleteTask confirmed res res' taskId w) =
           fetched w @
             \<lparr>http_method = ''DELETE'',
              url = ''http://localhost:8000/api/tasks/'' @ show_number taskId,
              headers =
                [(''Authorization'', ''Bearer '' @ nullable_str (localStorage w ''token''))]\<rparr>
             # rest
           \<and> (\<forall>r \<in> set rest. http_method r = ''GET'')))"
  by (auto simp: handleDeleteTask_def Let_def fetched_fetchTasks split: Outcome.split)

theorem handleDeleteTask_confirm_witness:
  "handleDeleteTask False (Response True None) Rejected 7 example_world = example_world
   \<and> fetched (handleDeleteTask True (Response False None) Rejected 7 example_world) \<noteq>
       fetched example_world
   \<and> (\<exists>rest. fetched (handleDeleteTask True (Response False None) Rejected 7 example_world) =
         \<lparr>http_method = ''DELETE'', url = ''http://localhost:8000/api/tasks/7'',
          headers = [(''Authorization'', ''Bearer abc'')]\<rparr> # rest)"
proof -
  have seven: "show_number 7 = ''7''"
    by (simp add: show_number_def show_nat.simps digit_char_def)
  have start: "fetched example_world = []
      \<and> nullable_str (localStorage example_world ''token'') = ''abc''"
    by (simp add: example_world_def nullable_str_def)
  have sent: "fetched (handleDeleteTask True (Response False None) Rejected 7 example_world)
      \<noteq> fetched example_world"
    by (simp add: handleDeleteTask_def Let_def)
  from handleDeleteTask_confirm [of False "Response True None" Rejected 7 example_world]
  have 1: "handleDeleteTask False (Response True None) Rejected 7 example_world
      = example_world"
    by simp
  from handleDeleteTask_confirm [of True "Response False None" Rejected 7 example_world]
    seven start
  have 2: "\<exists>rest.
      fetched (handleDeleteTask True (Response False None) Rejected 7 example_world) =
        \<lparr>http_method = ''DELETE'', url = ''http://localhost:8000/api/tasks/7'',
         headers = [(''Authorization'', ''Bearer abc'')]\<rparr> # rest"
    by auto
  from 1 sent 2 show ?thesis by blast
qed

section \<open>Properties of the Task API\<close>

lemma owned_other: "rows s tid = Some r \<Longrightarrow> owner_id r \<noteq> b \<Longrightarrow> owned b tid s = None"
  by (simp add: owned_def)

lemma owned_missing: "rows s tid = None \<Longrightarrow> owned b tid s = None"
  by (simp add: owned_def)

lemma owned_own: "rows s tid = Some r \<Longrightarrow> owner_id r = uid \<Longrightarrow> owned uid tid s = Some r"
  by (simp add: owned_def)

lemma example_store_row: "rows example_store 0 = Some example_row"
  by (simp add: example_store_def example_row_def empty_store_def create_def Let_def)

lemma example_row_owner: "owner_id example_row = 1"
  by (simp add: example_row_def)

text \<open>
  Claim C1. For every task of the store that user \<open>a\<close> owns and every other user
  \<open>b\<close>, the calls of \<open>update\<close>, \<open>toggle\<close> and \<open>delete\<close> with \<open>b\<close>'s identity and
  the task's id fail with \<open>NotFound\<close> and return the store as it was, so the row is
  unchanged. The answer is the one \<open>b\<close> gets in any store that has no task of that id:
  a task of another user cannot be told from a task that does not exist.
\<close>

theorem cross_owner_not_found:
  assumes "rows s tid = Some r" and "owner_id r = a" and "b \<noteq> a"
  shows "update b tid f now s = (Inl NotFound, s)
     \<and> toggle b tid now s = (Inl NotFound, s)
     \<and> delete b tid s = (Inl NotFound, s)
     \<and> (rows s' tid = None \<longrightarrow>
          fst (update b tid f now s) = fst (update b tid f now s')
          \<and> fst (toggle b tid now s) = fst (toggle b tid now s')
          \<and> fst (delete b tid s) = fst (delete b tid s'))"
proof -
  from assms have "owned b tid s = None"
    by (auto intro: owned_other)
  then show ?thesis
    by (simp add: update_def toggle_def delete_def owned_missing)
qed

theorem cross_owner_not_found_witness:
  "rows example_store 0 = Some example_row \<and> owner_id example_row = 1
   \<and> update 2 0 example_fields ''2024-01-02T00:00:00'' example_store
       = (Inl NotFound, example_store)
   \<and> toggle 2 0 ''2024-01-02T00:00:00'' example_store = (Inl NotFound, example_store)
   \<and> delete 2 0 example_store = (Inl NotFound, example_store)
   \<and> fst (delete 2 0 example_store) = fst (delete 2 0 empty_store)"
proof -
  have other: "(2::nat) \<noteq> 1"
    by simp
  have missing: "rows empty_store 0 = None"
    by (simp add: empty_store_def)
  from cross_owner_not_found [OF example_store_row example_row_owner other,
      of example_fields "''2024-01-02T00:00:00''" empty_store]
    missing example_store_row example_row_owner
  show ?thesis by blast
qed

text \<open>
  Claim C5 as stated fails: a single \<open>toggle\<close> does not change the completion flag
  alone. On the task of the example store, toggled a day after its creation, the
  returned row is not the original row with only its completion flag negated: its
  update timestamp is the time of the call.
\<close>

theorem toggle_not_only_flag:
  "fst (toggle 1 0 ''2024-01-02T00:00:00'' example_store) =
     Inr (example_row\<lparr>completed := True, row_updated_at := ''2024-01-02T00:00:00''\<rparr>)
   \<and> fst (toggle 1 0 ''2024-01-02T00:00:00'' example_store) \<noteq>
       Inr (example_row\<lparr>completed := \<not> completed example_row\<rparr>)
   \<and> row_updated_at example_row \<noteq> ''2024-01-02T00:00:00''"
proof -
  have own: "owned 1 0 example_store = Some example_row"
    using example_store_row example_row_owner by (rule owned_own)
  have stamp: "row_updated_at example_row \<noteq> ''2024-01-02T00:00:00''"
    by (simp add: example_row_def)
  have flag: "completed example_row = False"
    by (simp add: example_row_def)
  have result: "fst (toggle 1 0 ''2024-01-02T00:00:00'' example_store) =
      Inr (example_row\<lparr>completed := True, row_updated_at := ''2024-01-02T00:00:00''\<rparr>)"
    unfolding toggle_def own by (simp add: flag Let_def)
  have "example_row\<lparr>completed := True, row_updated_at := ''2024-01-02T00:00:00''\<rparr>
      \<noteq> example_row\<lparr>completed := \<not> completed example_row\<rparr>"
    by (simp add: example_row_def)
  with result stamp show ?thesis by simp
qed

text \<open>
  Claim C5, as amended. For every task the caller owns, \<open>toggle\<close> succeeds and
  returns the row with its completion flag negated and its update timestamp, which
  every mutation refreshes, set to the time of the call; it changes no other field. A
  second \<open>toggle\<close> returns the row with its original completion value. The store
  changes at that row only.
\<close>

theorem toggle_twice:
  assumes "rows s tid = Some r" and "owner_id r = uid"
  shows "\<exists>r1 s1 r2 s2.
       toggle uid tid t1 s = (Inr r1, s1) \<and> toggle uid tid t2 s1 = (Inr r2, s2)
     \<and> completed r1 = (\<not> completed r) \<and> completed r2 = completed r
     \<and> r1 = r\<lparr>completed := \<not> completed r, row_updated_at := t1\<rparr>
     \<and> r2 = r\<lparr>row_updated_at := t2\<rparr>
     \<and> rows s1 = (rows s)(tid \<mapsto> r1) \<and> rows s2 = (rows s)(tid \<mapsto> r2)"
proof -
  let ?r1 = "r\<lparr>completed := \<not> completed r, row_updated_at := t1\<rparr>"
  let ?s1 = "s\<lparr>rows := (rows s)(tid \<mapsto> ?r1)\<rparr>"
  let ?r2 = "r\<lparr>row_updated_at := t2\<rparr>"
  let ?s2 = "s\<lparr>rows := (rows s)(tid \<mapsto> ?r2)\<rparr>"
  from assms have first: "toggle uid tid t1 s = (Inr ?r1, ?s1)"
    by (simp add: toggle_def owned_own Let_def)
  have "owned uid tid ?s1 = Some ?r1"
    using assms by (simp add: owned_def)
  then have second: "toggle uid tid t2 ?s1 = (Inr ?r2, ?s2)"
    by (simp add: toggle_def Let_def)
  from first second show ?thesis by simp
qed

theorem toggle_twice_witness:
  "rows example_store 0 = Some example_row \<and> owner_id example_row = 1
   \<and> (\<exists>r1 s1 r2 s2.
       toggle 1 0 ''2024-01-02T00:00:00'' example_store = (Inr r1, s1)
     \<and> toggle 1 0 ''2024-01-03T00:00:00'' s1 = (Inr r2, s2)
     \<and> completed r1 = True \<and> completed r2 = False)"
proof -
  have "completed example_row = False"
    by (simp add: example_row_def)
  with toggle_twice [OF example_store_row example_row_owner,
      of "''2024-01-02T00:00:00''" "''2024-01-03T00:00:00''"]
    example_store_row example_row_owner
  show ?thesis by auto
qed

text \<open>
  Claim C6 as stated fails on the interface: \<open>interface Task\<close> declares no field
  named \<open>completed\<close>, so the task object the client receives from a successful
  \<open>create\<close> does not carry its completion flag under that name.
\<close>

theorem Task_interface_completed:
  "map_of Task_interface ''completed'' = None"
  by (simp add: Task_interface_def)

text \<open>
  Claim C6, as amended. For every successful \<open>create\<close>, the returned task has its
  completion flag false, its owner is the caller, both timestamps are the time of the
  call, and the row is persisted under its id. The task object of the interface carries
  the completion flag in the boolean field \<open>status\<close>, false on creation.
\<close>

theorem create_task:
  assumes "create uid ttl desc prio now s = (Inr r, s')"
  shows "completed r = False \<and> owner_id r = uid
     \<and> row_created_at r = now \<and> row_updated_at r = now
     \<and> rows s' (row_id r) = Some r
     \<and> status (expose r) = False
     \<and> map_of Task_interface ''status'' = Some TBoolean"
  using assms
  by (auto simp: create_def Let_def expose_def Task_interface_def split: if_splits)

theorem create_task_witness:
  "create 1 ''Buy milk'' None Low ''2024-01-01T00:00:00'' empty_store
     = (Inr example_row, example_store)
   \<and> completed example_row = False \<and> owner_id example_row = 1
   \<and> row_created_at example_row = ''2024-01-01T00:00:00''
   \<and> row_updated_at example_row = ''2024-01-01T00:00:00''
   \<and> status (expose example_row) = False"
proof -
  have made: "create 1 ''Buy milk'' None Low ''2024-01-01T00:00:00'' empty_store
      = (Inr example_row, example_store)"
    by (simp add: example_store_def example_row_def empty_store_def create_def Let_def)
  from create_task [OF made] made show ?thesis by simp
qed

end
